theory Spec2Isabelle
  imports Main "HOL-Library.Word" "HOL-Library.Sublist"
begin

unbundle bit_operations_syntax

section \<open>The dm-verity device controller of src/dm.c\<close>

text \<open>
  The two operations of \<^verbatim>\<open>src/dm.c\<close>, \<^verbatim>\<open>setup_dm_verity\<close> and
  \<^verbatim>\<open>remove_dm_verity\<close>, drive the kernel's device mapper through system calls.
  The embedding makes this explicit:
  \<^item> the \<^verbatim>\<open>RaucDMVerity\<close> struct is a record whose pointer fields are options
    (\<open>None\<close> is \<^verbatim>\<open>NULL\<close>), and a call returns the struct as it leaves it;
  \<^item> the host is a record of answers, one for each system call site; no call site runs
    twice in one call, so quantifying over the record covers every behaviour of the host;
  \<^item> every system call, \<^verbatim>\<open>g_close\<close> and log call is appended to a trace, with the
    request it carried;
  \<^item> the \<open>error\<close> field of the outcome is the error that the call hands to
    \<^verbatim>\<open>g_set_error\<close>, \<open>None\<close> when it makes no such call (glib stores the error
    for the caller unless the \<^verbatim>\<open>error\<close> argument is \<^verbatim>\<open>NULL\<close>);
  \<^item> a \<^verbatim>\<open>char\<close> array is modelled by the C string it holds.
\<close>

subsection \<open>Data\<close>

record RaucDMVerity =
  uuid :: "string option"
  lower_dev :: "string option"
  upper_dev :: "string option"
  data_size :: "64 word"
  root_digest :: "string option"
  salt :: "string option"

text \<open>
  \<^verbatim>\<open>struct dm_ioctl\<close> and \<^verbatim>\<open>struct dm_target_spec\<close> of \<^verbatim>\<open>linux/dm-ioctl.h\<close>
  (the padding and the trailing \<^verbatim>\<open>data[7]\<close> are left out).
\<close>

record dm_ioctl =
  version :: "32 word list"
  data_size_hdr :: "32 word"
  data_start :: "32 word"
  target_count :: "32 word"
  open_count :: "32 word"
  flags :: "32 word"
  event_nr :: "32 word"
  dev :: "64 word"
  name :: string
  uuid_hdr :: string

record dm_target_spec =
  sector_start :: "64 word"
  length_ts :: "64 word"
  status :: "32 word"
  next_ts :: "32 word"
  target_type :: string

text \<open>The local \<^verbatim>\<open>setup\<close> struct of \<^verbatim>\<open>setup_dm_verity\<close>.\<close>

record setup_buf =
  header :: dm_ioctl
  target_spec :: dm_target_spec
  params :: string

datatype dm_cmd = DM_DEV_CREATE | DM_DEV_REMOVE | DM_DEV_SUSPEND | DM_TABLE_LOAD | DM_TABLE_STATUS

definition DM_VERSION_MAJOR :: "32 word" where
  "DM_VERSION_MAJOR = 4"

definition DM_READONLY_FLAG :: "32 word" where
  "DM_READONLY_FLAG = push_bit 0 1"

definition DM_DEFERRED_REMOVE :: "32 word" where
  "DM_DEFERRED_REMOVE = push_bit 17 1"

definition DM_NAME_LEN :: nat where
  "DM_NAME_LEN = 128"

definition DM_UUID_LEN :: nat where
  "DM_UUID_LEN = 129"

definition DM_MAX_TYPE_NAME :: nat where
  "DM_MAX_TYPE_NAME = 16"

definition sizeof_dm_ioctl :: nat where
  "sizeof_dm_ioctl = 312"

definition sizeof_dm_target_spec :: nat where
  "sizeof_dm_target_spec = 40"

definition sizeof_params :: nat where
  "sizeof_params = 1024"

text \<open>\<^verbatim>\<open>sizeof(setup)\<close> in \<^verbatim>\<open>setup_dm_verity\<close>, as its static assertion fixes it.\<close>

definition sizeof_setup :: nat where
  "sizeof_setup = sizeof_dm_ioctl + sizeof_dm_target_spec + sizeof_params"

text \<open>A \<^verbatim>\<open>GError\<close>: every error of this file is \<^verbatim>\<open>G_FILE_ERROR\<close>, \<^verbatim>\<open>G_FILE_ERROR_FAILED\<close>.\<close>

datatype gerror_domain = G_FILE_ERROR

datatype gerror_code = G_FILE_ERROR_FAILED

record gerror =
  domain :: gerror_domain
  code :: gerror_code
  message :: string

text \<open>
  The \<^verbatim>\<open>GError **error\<close> argument as the caller passes it: \<^verbatim>\<open>NULL\<close>, the address
  of a \<^verbatim>\<open>NULL\<close> error, or the address of an error that is already set.
\<close>

datatype error_arg = Error_null | Error_unset | Error_set

subsection \<open>The host\<close>

record sys_result =
  ret :: int
  errno :: int

record ioctl_result = sys_result +
  buf :: setup_buf

text \<open>
  One answer for each call site: the return value, \<^verbatim>\<open>errno\<close> and, for an ioctl of
  \<^verbatim>\<open>setup_dm_verity\<close>, the buffer as the kernel leaves it. \<open>g_strerror\<close> is the
  host's table of error texts.
\<close>

record host =
  open_control :: sys_result
  dev_create :: ioctl_result
  table_load :: ioctl_result
  dev_suspend :: ioctl_result
  open_upper :: sys_result
  read_check :: sys_result
  table_status :: ioctl_result
  dev_remove :: sys_result
  g_strerror :: "int \<Rightarrow> string"

datatype event =
    Open_path string
  | Ioctl int dm_cmd dm_ioctl "(dm_target_spec \<times> string) option"
  | G_open string
  | Read_fd int nat
  | G_close int
  | G_message string
  | G_critical string

record outcome =
  res :: bool
  dm_verity :: RaucDMVerity
  error :: "gerror option"
  trace :: "event list"

subsection \<open>Library functions\<close>

text \<open>\<^verbatim>\<open>g_strlcpy(dest, src, n)\<close> leaves at most \<open>n - 1\<close> characters of \<open>src\<close> in \<open>dest\<close>.\<close>

definition g_strlcpy :: "string \<Rightarrow> nat \<Rightarrow> string" where
  "g_strlcpy src n = take (n - 1) src"

definition digit :: "nat \<Rightarrow> char" where
  "digit d = ''0123456789'' ! d"

fun dec :: "nat \<Rightarrow> string" where
  "dec n = (if n < 10 then [digit n] else dec (n div 10) @ [digit (n mod 10)])"

declare dec.simps [simp del]

datatype fmt_arg = S string | U "32 word" | U64 "64 word"

text \<open>
  The conversions this file uses: \<^verbatim>\<open>%s\<close>, \<^verbatim>\<open>%u\<close> and \<^verbatim>\<open>%lu\<close>
  (\<^verbatim>\<open>G_GUINT64_FORMAT\<close> on a 64-bit Linux). Every other character is copied.
\<close>

function g_printf :: "string \<Rightarrow> fmt_arg list \<Rightarrow> string" where
  "g_printf [] as = []"
| "g_printf (c # f) as =
     (if c = CHR ''%'' \<and> take 1 f = ''s'' then
        (case as of S s # as' \<Rightarrow> s @ g_printf (drop 1 f) as' | _ \<Rightarrow> c # g_printf f as)
      else if c = CHR ''%'' \<and> take 1 f = ''u'' then
        (case as of U w # as' \<Rightarrow> dec (unat w) @ g_printf (drop 1 f) as' | _ \<Rightarrow> c # g_printf f as)
      else if c = CHR ''%'' \<and> take 2 f = ''lu'' then
        (case as of U64 w # as' \<Rightarrow> dec (unat w) @ g_printf (drop 2 f) as' | _ \<Rightarrow> c # g_printf f as)
      else c # g_printf f as)"
  by pat_completeness auto
termination
  by (relation "measure (\<lambda>(f, as). length f)") auto

text \<open>\<^verbatim>\<open>G_MAXINT\<close>, the largest \<^verbatim>\<open>gint\<close>.\<close>

definition G_MAXINT :: int where
  "G_MAXINT = 2147483647"

text \<open>
  \<^verbatim>\<open>g_snprintf(buf, n, format, ...)\<close> leaves at most \<open>n - 1\<close> characters in \<open>buf\<close> and
  returns a \<^verbatim>\<open>gint\<close>: the length of the whole formatted string, or \<open>- 1\<close> where that
  length is beyond \<^verbatim>\<open>G_MAXINT\<close> (the \<^verbatim>\<open>vsnprintf\<close> of glibc, which it calls, fails
  so).
\<close>

definition g_snprintf :: "nat \<Rightarrow> string \<Rightarrow> fmt_arg list \<Rightarrow> string \<times> int" where
  "g_snprintf n fmt as =
     (take (n - 1) (g_printf fmt as),
      if int (length (g_printf fmt as)) > G_MAXINT then - 1 else int (length (g_printf fmt as)))"

text \<open>\<^verbatim>\<open>minor\<close> of \<^verbatim>\<open>sys/sysmacros.h\<close> (glibc), an \<^verbatim>\<open>unsigned int\<close>.\<close>

definition minor :: "64 word \<Rightarrow> 32 word" where
  "minor d = ucast (drop_bit 0 (d AND 0xff) OR drop_bit 12 (d AND 0xffffff00000))"

definition file_error_failed :: "string \<Rightarrow> gerror" where
  "file_error_failed msg = \<lparr>domain = G_FILE_ERROR, code = G_FILE_ERROR_FAILED, message = msg\<rparr>"

subsection \<open>dm.c\<close>

definition dm_set_header :: "nat \<Rightarrow> 32 word \<Rightarrow> string \<Rightarrow> dm_ioctl" where
  "dm_set_header sz fl u =
     \<lparr>version = [DM_VERSION_MAJOR, 0, 0],
      data_size_hdr = of_nat sz,
      data_start = of_nat sizeof_dm_ioctl,
      target_count = 0,
      open_count = 0,
      flags = fl,
      event_nr = 0,
      dev = 0,
      name = [],
      uuid_hdr = g_strlcpy u DM_UUID_LEN\<rparr>"

text \<open>The struct after \<^verbatim>\<open>= {0}\<close>.\<close>

definition zero_header :: dm_ioctl where
  "zero_header =
     \<lparr>version = [0, 0, 0], data_size_hdr = 0, data_start = 0, target_count = 0, open_count = 0,
      flags = 0, event_nr = 0, dev = 0, name = [], uuid_hdr = []\<rparr>"

definition zero_setup :: setup_buf where
  "zero_setup =
     \<lparr>header = zero_header,
      target_spec = \<lparr>sector_start = 0, length_ts = 0, status = 0, next_ts = 0, target_type = []\<rparr>,
      params = []\<rparr>"

text \<open>
  The \<^verbatim>\<open>g_return_val_if_fail\<close> lines of \<^verbatim>\<open>setup_dm_verity\<close>, in their order: the
  expression of the first check that fails. The struct itself exists (the first line,
  \<^verbatim>\<open>dm_verity != NULL\<close>, holds by the type).
\<close>

definition setup_checks :: "RaucDMVerity \<Rightarrow> error_arg \<Rightarrow> string option" where
  "setup_checks d e =
     (if uuid d = None then Some ''dm_verity->uuid != NULL''
      else if lower_dev d = None then Some ''dm_verity->lower_dev != NULL''
      else if upper_dev d \<noteq> None then Some ''dm_verity->upper_dev == NULL''
      else if \<not> (data_size d > 0 \<and> data_size d mod 4096 = 0)
        then Some ''dm_verity->data_size > 0 && dm_verity->data_size % 4096 == 0''
      else if root_digest d = None then Some ''dm_verity->root_digest != NULL''
      else if salt d = None then Some ''dm_verity->salt != NULL''
      else if e = Error_set then Some ''error == NULL || *error == NULL''
      else None)"

definition remove_checks :: "RaucDMVerity \<Rightarrow> error_arg \<Rightarrow> string option" where
  "remove_checks d e =
     (if uuid d = None then Some ''dm_verity->uuid != NULL''
      else if lower_dev d = None then Some ''dm_verity->lower_dev != NULL''
      else if upper_dev d = None then Some ''dm_verity->upper_dev != NULL''
      else if \<not> (data_size d > 0 \<and> data_size d mod 4096 = 0)
        then Some ''dm_verity->data_size > 0 && dm_verity->data_size % 4096 == 0''
      else if root_digest d = None then Some ''dm_verity->root_digest != NULL''
      else if salt d = None then Some ''dm_verity->salt != NULL''
      else if e = Error_set then Some ''error == NULL || *error == NULL''
      else None)"

text \<open>A failed \<^verbatim>\<open>g_return_val_if_fail\<close>: a critical log line, and \<^verbatim>\<open>FALSE\<close>.\<close>

definition return_val_if_fail :: "RaucDMVerity \<Rightarrow> string \<Rightarrow> outcome" where
  "return_val_if_fail d expr = \<lparr>res = False, dm_verity = d, error = None, trace = [G_critical expr]\<rparr>"

definition ioctl_setup :: "int \<Rightarrow> dm_cmd \<Rightarrow> setup_buf \<Rightarrow> event" where
  "ioctl_setup fd cmd s = Ioctl fd cmd (header s) (Some (target_spec s, params s))"

text \<open>The label \<^verbatim>\<open>out:\<close> of \<^verbatim>\<open>setup_dm_verity\<close>.\<close>

definition setup_out :: "bool \<Rightarrow> RaucDMVerity \<Rightarrow> gerror option \<Rightarrow> event list \<Rightarrow> int \<Rightarrow> int \<Rightarrow> outcome" where
  "setup_out r d e tr checkfd dmfd =
     \<lparr>res = r, dm_verity = d, error = e,
      trace = tr @ (if checkfd \<ge> 0 then [G_close checkfd] else [])
                 @ (if dmfd \<ge> 0 then [G_close dmfd] else [])\<rparr>"

text \<open>The label \<^verbatim>\<open>out_remove_dm:\<close>, which falls through to \<^verbatim>\<open>out:\<close>.\<close>

definition setup_out_remove_dm ::
  "host \<Rightarrow> bool \<Rightarrow> RaucDMVerity \<Rightarrow> gerror option \<Rightarrow> event list \<Rightarrow> setup_buf \<Rightarrow> int \<Rightarrow> int \<Rightarrow> outcome" where
  "setup_out_remove_dm h r d e tr setup checkfd dmfd =
     (let tr = tr @ (if checkfd \<ge> 0 then [G_close checkfd] else []);
          checkfd = (if checkfd \<ge> 0 then - 1 else checkfd);
          setup = setup\<lparr>header := dm_set_header sizeof_setup 0 (the (uuid d))\<rparr>;
          tr = tr @ [ioctl_setup dmfd DM_DEV_REMOVE setup];
          tr = tr @ (if ret (dev_remove h) \<noteq> 0
                     then [G_message (g_printf ''Failed to remove bad dm-verity device on error: %s''
                                        [S (g_strerror h (errno (dev_remove h)))])]
                     else [])
      in setup_out r d e tr checkfd dmfd)"

definition setup_dm_verity :: "host \<Rightarrow> RaucDMVerity \<Rightarrow> error_arg \<Rightarrow> outcome" where
  "setup_dm_verity h d err =
     (case setup_checks d err of
        Some expr \<Rightarrow> return_val_if_fail d expr
      | None \<Rightarrow>
     (let checkfd = - 1;
          setup = zero_setup;
          dmfd = ret (open_control h);
          tr = [Open_path ''/dev/mapper/control'']
      in
      if dmfd < 0 then
        setup_out False d (Some (file_error_failed ''Failed to open /dev/mapper/control''))
          tr checkfd dmfd
      else
     (let setup = setup\<lparr>header := dm_set_header sizeof_setup DM_READONLY_FLAG (the (uuid d))\<rparr>;
          setup = setup\<lparr>header := (header setup)\<lparr>name := g_strlcpy ''rauc-verity-bundle'' DM_NAME_LEN\<rparr>\<rparr>;
          tr = tr @ [ioctl_setup dmfd DM_DEV_CREATE setup]
      in
      if ret (dev_create h) \<noteq> 0 then
        setup_out False d
          (Some (file_error_failed
             (g_printf ''Failed to create dm device: %s'' [S (g_strerror h (errno (dev_create h)))])))
          tr checkfd dmfd
      else
     (let setup = buf (dev_create h);
          setup = setup\<lparr>header := dm_set_header sizeof_setup DM_READONLY_FLAG (the (uuid d))\<rparr>;
          setup = setup\<lparr>header := (header setup)\<lparr>target_count := 1\<rparr>\<rparr>;
          setup = setup\<lparr>target_spec := (target_spec setup)\<lparr>status := 0\<rparr>\<rparr>;
          setup = setup\<lparr>target_spec := (target_spec setup)\<lparr>sector_start := 0\<rparr>\<rparr>;
          setup = setup\<lparr>target_spec := (target_spec setup)\<lparr>length_ts := data_size d div 512\<rparr>\<rparr>;
          setup = setup\<lparr>target_spec :=
                    (target_spec setup)\<lparr>target_type := g_strlcpy ''verity'' DM_MAX_TYPE_NAME\<rparr>\<rparr>;
          printed = g_snprintf sizeof_params ''1 %s %s 4096 4096 %lu %lu sha256 %s %s''
                      [S (the (lower_dev d)), S (the (lower_dev d)),
                       U64 (data_size d div 4096),
                       U64 (data_size d div 4096),
                       S (the (root_digest d)),
                       S (the (salt d))];
          setup = setup\<lparr>params := fst printed\<rparr>
      in
      if snd printed \<ge> int sizeof_params then
        setup_out_remove_dm h False d (Some (file_error_failed ''Failed to generate dm parameter string''))
          tr setup checkfd dmfd
      else
     (let tr = tr @ [ioctl_setup dmfd DM_TABLE_LOAD setup] in
      if ret (table_load h) \<noteq> 0 then
        setup_out_remove_dm h False d
          (Some (file_error_failed
             (g_printf ''Failed to load dm table: %s'' [S (g_strerror h (errno (table_load h)))])))
          tr (buf (table_load h)) checkfd dmfd
      else
     (let setup = buf (table_load h);
          setup = setup\<lparr>header := dm_set_header sizeof_setup 0 (the (uuid d))\<rparr>;
          tr = tr @ [ioctl_setup dmfd DM_DEV_SUSPEND setup]
      in
      if ret (dev_suspend h) \<noteq> 0 then
        setup_out_remove_dm h False d
          (Some (file_error_failed
             (g_printf ''Failed to resume dm device: %s'' [S (g_strerror h (errno (dev_suspend h)))])))
          tr (buf (dev_suspend h)) checkfd dmfd
      else
     (let setup = buf (dev_suspend h);
          d = d\<lparr>upper_dev := Some (g_printf ''/dev/dm-%u'' [U (minor (dev (header setup)))])\<rparr>;
          tr = tr @ [G_open (the (upper_dev d))];
          checkfd = ret (open_upper h)
      in
      if checkfd < 0 then
        setup_out_remove_dm h False d
          (Some (file_error_failed (g_printf ''Failed to open %s'' [S (the (upper_dev d))])))
          tr setup checkfd dmfd
      else
     (let tr = tr @ [Read_fd checkfd 1] in
      if ret (read_check h) \<noteq> 1 then
        setup_out_remove_dm h False d
          (Some (file_error_failed
             (g_printf ''Check read from dm-verity device failed: %s''
                [S (g_strerror h (errno (read_check h)))])))
          tr setup checkfd dmfd
      else
     (let setup = setup\<lparr>header := dm_set_header sizeof_setup 0 (the (uuid d))\<rparr>;
          tr = tr @ [ioctl_setup dmfd DM_TABLE_STATUS setup]
      in
      if ret (table_status h) \<noteq> 0 then
        setup_out_remove_dm h False d
          (Some (file_error_failed
             (g_printf ''Failed to query dm device status: %s''
                [S (g_strerror h (errno (table_status h)))])))
          tr (buf (table_status h)) checkfd dmfd
      else
     (let setup = buf (table_status h) in
      if params setup \<noteq> ''V'' then
        setup_out_remove_dm h False d
          (Some (file_error_failed
             (g_printf ''Unexpected dm-verity status '%s' (instead of 'V')'' [S (params setup)])))
          tr setup checkfd dmfd
      else
     (let tr = tr @ [G_message (g_printf (''Configured dm-verity device '%s'' @ [CHR 0x27])
                                  [S (the (upper_dev d))])]
      in setup_out True d None tr checkfd dmfd)))))))))))"

text \<open>The label \<^verbatim>\<open>out:\<close> of \<^verbatim>\<open>remove_dm_verity\<close>.\<close>

definition remove_out :: "bool \<Rightarrow> RaucDMVerity \<Rightarrow> gerror option \<Rightarrow> event list \<Rightarrow> int \<Rightarrow> outcome" where
  "remove_out r d e tr dmfd =
     \<lparr>res = r, dm_verity = d, error = e,
      trace = tr @ (if dmfd \<ge> 0 then [G_close dmfd] else [])\<rparr>"

definition remove_dm_verity :: "host \<Rightarrow> RaucDMVerity \<Rightarrow> bool \<Rightarrow> error_arg \<Rightarrow> outcome" where
  "remove_dm_verity h d deferred err =
     (case remove_checks d err of
        Some expr \<Rightarrow> return_val_if_fail d expr
      | None \<Rightarrow>
     (let dmfd = ret (open_control h);
          tr = [Open_path ''/dev/mapper/control'']
      in
      if dmfd < 0 then
        remove_out False d (Some (file_error_failed ''Failed to open /dev/mapper/control'')) tr dmfd
      else
     (let hdr = dm_set_header sizeof_dm_ioctl (if deferred then DM_DEFERRED_REMOVE else 0) (the (uuid d));
          tr = tr @ [Ioctl dmfd DM_DEV_REMOVE hdr None]
      in
      if ret (dev_remove h) \<noteq> 0 then
        remove_out False d
          (Some (file_error_failed
             (g_printf ''Failed to remove dm device: %s'' [S (g_strerror h (errno (dev_remove h)))])))
          tr dmfd
      else
     (let d = d\<lparr>upper_dev := None\<rparr>
      in remove_out True d None tr dmfd))))"

subsection \<open>Observations on an outcome\<close>

text \<open>The preconditions of the two contracts, as the specification words them.\<close>

definition setup_pre :: "RaucDMVerity \<Rightarrow> bool" where
  "setup_pre d \<longleftrightarrow>
     upper_dev d = None \<and> 0 < data_size d \<and> data_size d mod 4096 = 0 \<and>
     uuid d \<noteq> None \<and> lower_dev d \<noteq> None \<and> root_digest d \<noteq> None \<and> salt d \<noteq> None"

definition remove_pre :: "RaucDMVerity \<Rightarrow> bool" where
  "remove_pre d \<longleftrightarrow>
     upper_dev d \<noteq> None \<and> 0 < data_size d \<and> data_size d mod 4096 = 0 \<and>
     uuid d \<noteq> None \<and> lower_dev d \<noteq> None \<and> root_digest d \<noteq> None \<and> salt d \<noteq> None"

text \<open>The requests of one command that a trace holds, in order: header and payload.\<close>

fun requests :: "dm_cmd \<Rightarrow> event list \<Rightarrow> (dm_ioctl \<times> (dm_target_spec \<times> string) option) list" where
  "requests c [] = []"
| "requests c (Ioctl fd c' hdr body # es) =
     (if c' = c then (hdr, body) # requests c es else requests c es)"
| "requests c (e # es) = requests c es"

text \<open>Everything but a log line is a call to the host.\<close>

fun is_host_call :: "event \<Rightarrow> bool" where
  "is_host_call (G_message m) = False"
| "is_host_call (G_critical m) = False"
| "is_host_call e = True"

text \<open>
  The target parameter string of the specification,
  \<^verbatim>\<open>1 <lower> <lower> 4096 4096 <data_blocks> <hash_offset_blocks> sha256 <root_digest> <salt>\<close>,
  for a device, and whether it fits the buffer of 1024 bytes with its terminator.
\<close>

definition params_of :: "RaucDMVerity \<Rightarrow> string" where
  "params_of d =
     ''1 '' @ the (lower_dev d) @ '' '' @ the (lower_dev d) @ '' 4096 4096 ''
       @ dec (unat (data_size d) div 4096) @ '' '' @ dec (unat (data_size d) div 4096)
       @ '' sha256 '' @ the (root_digest d) @ '' '' @ the (salt d)"

definition fits :: "RaucDMVerity \<Rightarrow> bool" where
  "fits d \<longleftrightarrow> length (params_of d) < 1024"

text \<open>
  The steps of Setup after the control handle is open, what it means for the host to let
  one pass, and the error text that belongs to each.
\<close>

datatype step = Create | Load_table | Activate | Probe_open | Probe_read | Status_check

fun passes :: "host \<Rightarrow> step \<Rightarrow> bool" where
  "passes h Create = (ret (dev_create h) = 0)"
| "passes h Load_table = (ret (table_load h) = 0)"
| "passes h Activate = (ret (dev_suspend h) = 0)"
| "passes h Probe_open = (ret (open_upper h) \<ge> 0)"
| "passes h Probe_read = (ret (read_check h) = 1)"
| "passes h Status_check = (ret (table_status h) = 0 \<and> params (buf (table_status h)) = ''V'')"

fun earlier :: "step \<Rightarrow> step list" where
  "earlier Create = []"
| "earlier Load_table = [Create]"
| "earlier Activate = [Create, Load_table]"
| "earlier Probe_open = [Create, Load_table, Activate]"
| "earlier Probe_read = [Create, Load_table, Activate, Probe_open]"
| "earlier Status_check = [Create, Load_table, Activate, Probe_open, Probe_read]"

definition reaches :: "host \<Rightarrow> step \<Rightarrow> bool" where
  "reaches h s \<longleftrightarrow> ret (open_control h) \<ge> 0 \<and> list_all (passes h) (earlier s)"

definition fails_at :: "host \<Rightarrow> step \<Rightarrow> bool" where
  "fails_at h s \<longleftrightarrow> reaches h s \<and> \<not> passes h s"

definition upper_path :: "host \<Rightarrow> string" where
  "upper_path h = ''/dev/dm-'' @ dec (unat (minor (dev (header (buf (dev_suspend h))))))"

fun step_message :: "host \<Rightarrow> step \<Rightarrow> string" where
  "step_message h Create = ''Failed to create dm device: '' @ g_strerror h (errno (dev_create h))"
| "step_message h Load_table = ''Failed to load dm table: '' @ g_strerror h (errno (table_load h))"
| "step_message h Activate = ''Failed to resume dm device: '' @ g_strerror h (errno (dev_suspend h))"
| "step_message h Probe_open = ''Failed to open '' @ upper_path h"
| "step_message h Probe_read =
     ''Check read from dm-verity device failed: '' @ g_strerror h (errno (read_check h))"
| "step_message h Status_check =
     (if ret (table_status h) \<noteq> 0
      then ''Failed to query dm device status: '' @ g_strerror h (errno (table_status h))
      else ''Unexpected dm-verity status '' @ [CHR 0x27] @ params (buf (table_status h)) @ [CHR 0x27]
             @ '' (instead of 'V')'')"

subsection \<open>Example inputs\<close>

text \<open>The example of the specification: 4096 bytes of data on \<^verbatim>\<open>/dev/loop0\<close>.\<close>

definition example_device :: RaucDMVerity where
  "example_device =
     \<lparr>uuid = Some ''f47ac10b-58cc-4372-a567-0e02b2c3d479'',
      lower_dev = Some ''/dev/loop0'',
      upper_dev = None,
      data_size = 4096,
      root_digest = Some ''9f86d081884c7d659a2feaa0c55ad015a3bf4f1b2b0b822cd15d6c15b0f00a08'',
      salt = Some ''000102030405060708090a0b0c0d0e0f''\<rparr>"

definition errno_text :: "int \<Rightarrow> string" where
  "errno_text n =
     (if n = 2 then ''No such file or directory''
      else if n = 5 then ''Input/output error''
      else if n = 13 then ''Permission denied''
      else if n = 16 then ''Device or resource busy''
      else if n = 22 then ''Invalid argument''
      else ''Unknown error'')"

definition answer :: "int \<Rightarrow> int \<Rightarrow> sys_result" where
  "answer r n = \<lparr>ret = r, errno = n\<rparr>"

definition kernel_answer :: "int \<Rightarrow> int \<Rightarrow> setup_buf \<Rightarrow> ioctl_result" where
  "kernel_answer r n b = \<lparr>ret = r, errno = n, buf = b\<rparr>"

text \<open>A host on which every call succeeds: the device gets the number 253:0 and verifies.\<close>

definition host_ok :: host where
  "host_ok =
     \<lparr>open_control = answer 3 0,
      dev_create = kernel_answer 0 0 zero_setup,
      table_load = kernel_answer 0 0 zero_setup,
      dev_suspend = kernel_answer 0 0 (zero_setup\<lparr>header := zero_header\<lparr>dev := 0xfd00\<rparr>\<rparr>),
      open_upper = answer 4 0,
      read_check = answer 1 0,
      table_status = kernel_answer 0 0 (zero_setup\<lparr>params := ''V''\<rparr>),
      dev_remove = answer 0 0,
      g_strerror = errno_text\<rparr>"

text \<open>The same host answering the status query with another string.\<close>

definition host_status :: "string \<Rightarrow> host" where
  "host_status s = host_ok\<lparr>table_status := kernel_answer 0 0 (zero_setup\<lparr>params := s\<rparr>)\<rparr>"

text \<open>The same host with one step made to fail.\<close>

fun host_failing :: "step \<Rightarrow> host" where
  "host_failing Create = host_ok\<lparr>dev_create := kernel_answer (- 1) 16 zero_setup\<rparr>"
| "host_failing Load_table = host_ok\<lparr>table_load := kernel_answer (- 1) 22 zero_setup\<rparr>"
| "host_failing Activate = host_ok\<lparr>dev_suspend := kernel_answer (- 1) 22 zero_setup\<rparr>"
| "host_failing Probe_open = host_ok\<lparr>open_upper := answer (- 1) 2\<rparr>"
| "host_failing Probe_read = host_ok\<lparr>read_check := answer (- 1) 5\<rparr>"
| "host_failing Status_check = host_status ''C''"

text \<open>Hosts that refuse the control handle, and the removal of a device in use.\<close>

definition host_no_control :: host where
  "host_no_control = host_ok\<lparr>open_control := answer (- 1) 13\<rparr>"

definition host_remove_busy :: host where
  "host_remove_busy = host_ok\<lparr>dev_remove := answer (- 1) 16\<rparr>"

text \<open>
  The example device once it is set up, two devices at the bound of the parameter buffer
  (their formatted parameters have 1024 and 1023 characters), and one whose lower device
  has a path of \<open>2 ^ 30\<close> characters.
\<close>

definition active_device :: RaucDMVerity where
  "active_device = example_device\<lparr>upper_dev := Some ''/dev/dm-0''\<rparr>"

definition long_device :: RaucDMVerity where
  "long_device = example_device\<lparr>lower_dev := Some (replicate 451 (CHR ''a''))\<rparr>"

definition snug_device :: RaucDMVerity where
  "snug_device =
     example_device\<lparr>lower_dev := Some (replicate 450 (CHR ''a'')),
                    salt := Some (replicate 33 (CHR ''0''))\<rparr>"

definition huge_device :: RaucDMVerity where
  "huge_device = example_device\<lparr>lower_dev := Some (replicate 1073741824 (CHR ''a''))\<rparr>"

section \<open>Properties\<close>

subsection \<open>Auxiliary facts\<close>

lemma requests_append [simp]: "requests c (xs @ ys) = requests c xs @ requests c ys"
  by (induction c xs rule: requests.induct) auto

lemma setup_checks_None: "setup_checks d e = None \<longleftrightarrow> setup_pre d \<and> e \<noteq> Error_set"
  unfolding setup_checks_def setup_pre_def
  by (cases "data_size d mod 4096 = 0"; cases "0 < data_size d"; cases "uuid d"; cases "lower_dev d";
      cases "upper_dev d"; cases "root_digest d"; cases "salt d"; cases e; simp)

lemma remove_checks_None: "remove_checks d e = None \<longleftrightarrow> remove_pre d \<and> e \<noteq> Error_set"
  unfolding remove_checks_def remove_pre_def
  by (cases "data_size d mod 4096 = 0"; cases "0 < data_size d"; cases "uuid d"; cases "lower_dev d";
      cases "upper_dev d"; cases "root_digest d"; cases "salt d"; cases e; simp)

lemma unat_div_4096: "unat ((w :: 64 word) div 4096) = unat w div 4096"
  by (simp add: unat_div)

lemma blocks_of_size: "N < 2 ^ 52 \<Longrightarrow> unat (4096 * of_nat N :: 64 word) div 4096 = N"
  by (simp add: unat_word_ariths unat_of_nat)

lemmas setup_defs = setup_dm_verity_def setup_out_def setup_out_remove_dm_def ioctl_setup_def Let_def
  return_val_if_fail_def g_snprintf_def G_MAXINT_def sizeof_params_def fits_def params_of_def
  unat_div_4096

lemmas remove_defs = remove_dm_verity_def remove_out_def return_val_if_fail_def Let_def

lemmas example_defs = example_device_def host_ok_def host_status_def answer_def kernel_answer_def
  zero_setup_def zero_header_def errno_text_def

lemma example_device_pre: "setup_pre example_device"
  by (simp add: setup_pre_def example_device_def)

lemma example_device_fits: "fits example_device"
  by (simp add: fits_def params_of_def example_device_def dec.simps digit_def)

lemma active_device_pre: "remove_pre active_device"
  by (simp add: remove_pre_def active_device_def example_device_def)

lemma long_device_pre: "setup_pre long_device"
  by (simp add: setup_pre_def long_device_def example_device_def)

lemma snug_device_pre: "setup_pre snug_device"
  by (simp add: setup_pre_def snug_device_def example_device_def)

lemma huge_device_pre: "setup_pre huge_device"
  by (simp add: setup_pre_def huge_device_def example_device_def)

lemma huge_device_length: "length (params_of huge_device) = 2147483770"
  by (simp add: params_of_def huge_device_def example_device_def dec.simps digit_def)

lemma sectors_of_size:
  assumes "(w :: 64 word) mod 4096 = 0"
  shows "unat (w div 512) = 8 * unat (w div 4096)"
proof -
  have "unat (w mod 4096) = unat w mod 4096"
    by (simp add: unat_mod)
  with assms have "unat w mod 4096 = 0"
    by (simp only: unat_0)
  then obtain k where k: "unat w = 4096 * k"
    by (metis mult_div_mod_eq add_0_right)
  have "unat (w div 512) = unat w div 512" and "unat (w div 4096) = unat w div 4096"
    by (simp_all add: unat_div)
  with k show ?thesis
    by simp
qed

text \<open>
  Once the device is activated, the struct keeps its \<open>upper_dev\<close> whatever happens to
  the later steps: no path of \<^verbatim>\<open>setup_dm_verity\<close> clears the field.
\<close>

lemma setup_keeps_upper_dev_after_activation:
  assumes "setup_pre d" and "e \<noteq> Error_set" and "fits d" and "reaches h Probe_open"
  shows "upper_dev (dm_verity (setup_dm_verity h d e)) \<noteq> None"
  using assms setup_checks_None [of d e]
  by (simp add: setup_defs reaches_def)

subsection \<open>Setup\<close>

text \<open>
  C3. If the device-create request fails, Setup reports the create error and returns at
  once: after the create request it only closes the control handle, no Remove request is
  issued, and the device is as it was.
\<close>

theorem create_failure_stops_without_rollback:
  assumes "setup_pre d" and "e \<noteq> Error_set"
    and "ret (open_control h) \<ge> 0" and "ret (dev_create h) \<noteq> 0"
  shows "\<not> res (setup_dm_verity h d e) \<and>
     error (setup_dm_verity h d e) =
       Some (file_error_failed (''Failed to create dm device: '' @ g_strerror h (errno (dev_create h)))) \<and>
     requests DM_DEV_REMOVE (trace (setup_dm_verity h d e)) = [] \<and>
     drop 2 (trace (setup_dm_verity h d e)) = [G_close (ret (open_control h))] \<and>
     dm_verity (setup_dm_verity h d e) = d"
  using assms setup_checks_None [of d e]
  by (simp add: setup_defs)

theorem create_failure_stops_without_rollback_witness:
  "setup_pre example_device \<and> Error_unset \<noteq> Error_set \<and>
   ret (open_control (host_failing Create)) \<ge> 0 \<and> ret (dev_create (host_failing Create)) \<noteq> 0 \<and>
   \<not> res (setup_dm_verity (host_failing Create) example_device Error_unset) \<and>
   error (setup_dm_verity (host_failing Create) example_device Error_unset) =
     Some (file_error_failed ''Failed to create dm device: Device or resource busy'') \<and>
   requests DM_DEV_REMOVE (trace (setup_dm_verity (host_failing Create) example_device Error_unset)) = []"
proof -
  have e: "Error_unset \<noteq> Error_set"
    by simp
  have op: "ret (open_control (host_failing Create)) \<ge> 0"
    and cr: "ret (dev_create (host_failing Create)) \<noteq> 0"
    by (simp_all add: example_defs)
  show ?thesis
    using example_device_pre op cr
      create_failure_stops_without_rollback [OF example_device_pre e op cr]
    by (simp add: example_defs)
qed

text \<open>
  C2, as the code has it. When the host fails one step of Setup (the steps before it
  having passed), Setup returns failure with the error text of that step. For a failed
  table load, activation, probe open, probe read or status check it issues exactly one
  Remove request, whose header carries the identity token (as \<^verbatim>\<open>g_strlcpy\<close> leaves it
  in the field of 129 bytes); for a failed create it issues none.
\<close>

theorem failed_step_rollback_and_error:
  assumes "setup_pre d" and "e \<noteq> Error_set" and "fits d" and "fails_at h s"
  shows "\<not> res (setup_dm_verity h d e) \<and>
     error (setup_dm_verity h d e) = Some (file_error_failed (step_message h s)) \<and>
     map (uuid_hdr \<circ> fst) (requests DM_DEV_REMOVE (trace (setup_dm_verity h d e))) =
       (if s = Create then [] else [g_strlcpy (the (uuid d)) DM_UUID_LEN])"
  using assms setup_checks_None [of d e]
  by (cases s; simp add: setup_defs reaches_def fails_at_def upper_path_def dm_set_header_def)

theorem failed_step_rollback_and_error_witness:
  "setup_pre example_device \<and> Error_unset \<noteq> Error_set \<and> fits example_device \<and>
   fails_at (host_failing Probe_read) Probe_read \<and>
   \<not> res (setup_dm_verity (host_failing Probe_read) example_device Error_unset) \<and>
   error (setup_dm_verity (host_failing Probe_read) example_device Error_unset) =
     Some (file_error_failed ''Check read from dm-verity device failed: Input/output error'') \<and>
   map (uuid_hdr \<circ> fst)
     (requests DM_DEV_REMOVE
        (trace (setup_dm_verity (host_failing Probe_read) example_device Error_unset))) =
     [''f47ac10b-58cc-4372-a567-0e02b2c3d479'']"
proof -
  have e: "Error_unset \<noteq> Error_set"
    by simp
  have f: "fails_at (host_failing Probe_read) Probe_read"
    by (simp add: fails_at_def reaches_def example_defs)
  have u: "g_strlcpy (the (uuid example_device)) DM_UUID_LEN = ''f47ac10b-58cc-4372-a567-0e02b2c3d479''"
    by (simp add: g_strlcpy_def DM_UUID_LEN_def example_device_def)
  show ?thesis
    using example_device_pre example_device_fits f u
      failed_step_rollback_and_error [OF example_device_pre e example_device_fits f]
    by (simp add: example_defs)
qed

text \<open>
  C2, as the claim words it, fails at the create step: with the create request refused,
  Setup issues no Remove request at all, where the claim asks for exactly one.
\<close>

theorem create_failure_issues_no_remove:
  "setup_pre example_device \<and> fits example_device \<and> fails_at (host_failing Create) Create \<and>
   length (requests DM_DEV_REMOVE
     (trace (setup_dm_verity (host_failing Create) example_device Error_unset))) \<noteq> 1"
proof -
  have f: "fails_at (host_failing Create) Create"
    by (simp add: fails_at_def reaches_def example_defs)
  have "requests DM_DEV_REMOVE
      (trace (setup_dm_verity (host_failing Create) example_device Error_unset)) = []"
    by (simp add: setup_defs example_defs setup_checks_def)
  with example_device_pre example_device_fits f show ?thesis
    by simp
qed

text \<open>
  C4. For a device of \<open>4096 * N\<close> bytes (\<open>N > 0\<close>, the product within 64 bits) whose
  parameters fit the buffer, the one table load that Setup issues carries exactly the
  string \<^verbatim>\<open>1 <lower> <lower> 4096 4096 N N sha256 <root_digest> <salt>\<close>, with \<open>N\<close> in
  decimal.
\<close>

theorem table_load_params_format:
  assumes "setup_pre d" and "e \<noteq> Error_set" and "reaches h Load_table"
    and "data_size d = 4096 * of_nat N" and "0 < N" and "N < 2 ^ 52"
    and "lower_dev d = Some lower" and "root_digest d = Some rd" and "salt d = Some s"
    and "length (''1 '' @ lower @ '' '' @ lower @ '' 4096 4096 '' @ dec N @ '' '' @ dec N
                   @ '' sha256 '' @ rd @ '' '' @ s) < 1024"
  shows "map (map_option snd \<circ> snd) (requests DM_TABLE_LOAD (trace (setup_dm_verity h d e))) =
     [Some (''1 '' @ lower @ '' '' @ lower @ '' 4096 4096 '' @ dec N @ '' '' @ dec N
              @ '' sha256 '' @ rd @ '' '' @ s)]"
  using assms setup_checks_None [of d e] blocks_of_size [of N]
  by (simp add: setup_defs reaches_def)

theorem table_load_params_format_witness:
  "setup_pre example_device \<and> Error_unset \<noteq> Error_set \<and> reaches host_ok Load_table \<and>
   data_size example_device = 4096 * of_nat 1 \<and> (0 :: nat) < 1 \<and> (1 :: nat) < 2 ^ 52 \<and>
   map (map_option snd \<circ> snd)
     (requests DM_TABLE_LOAD (trace (setup_dm_verity host_ok example_device Error_unset))) =
     [Some ''1 /dev/loop0 /dev/loop0 4096 4096 1 1 sha256 9f86d081884c7d659a2feaa0c55ad015a3bf4f1b2b0b822cd15d6c15b0f00a08 000102030405060708090a0b0c0d0e0f'']"
proof -
  have e: "Error_unset \<noteq> Error_set"
    by simp
  have r: "reaches host_ok Load_table"
    by (simp add: reaches_def example_defs)
  have ds: "data_size example_device = 4096 * of_nat 1"
    by (simp add: example_device_def)
  have n: "(0 :: nat) < 1" "(1 :: nat) < 2 ^ 52"
    by simp_all
  have l: "lower_dev example_device = Some ''/dev/loop0''"
    and rd: "root_digest example_device =
       Some ''9f86d081884c7d659a2feaa0c55ad015a3bf4f1b2b0b822cd15d6c15b0f00a08''"
    and s: "salt example_device = Some ''000102030405060708090a0b0c0d0e0f''"
    by (simp_all add: example_device_def)
  have d1: "dec (Suc 0) = ''1''"
    by (simp add: dec.simps digit_def)
  have len: "length (''1 '' @ ''/dev/loop0'' @ '' '' @ ''/dev/loop0'' @ '' 4096 4096 '' @ dec 1
                   @ '' '' @ dec 1 @ '' sha256 ''
                   @ ''9f86d081884c7d659a2feaa0c55ad015a3bf4f1b2b0b822cd15d6c15b0f00a08''
                   @ '' '' @ ''000102030405060708090a0b0c0d0e0f'') < 1024"
    by (simp add: d1)
  show ?thesis
    using example_device_pre r ds
      table_load_params_format [OF example_device_pre e r ds n l rd s len]
    by (simp add: d1)
qed

text \<open>
  The bound of the parameter buffer as the code checks it. A formatted parameter string of
  1024 characters or more, up to \<^verbatim>\<open>G_MAXINT\<close>, makes Setup fail without a table load,
  with the formatting error once the create step has passed; a string of fewer than 1024
  characters never gives the formatting error.
\<close>

lemma parameter_buffer_bound_within_gint:
  assumes "setup_pre d" and "e \<noteq> Error_set"
  shows "(1024 \<le> length (params_of d) \<and> int (length (params_of d)) \<le> G_MAXINT \<longrightarrow>
       \<not> res (setup_dm_verity h d e) \<and>
       requests DM_TABLE_LOAD (trace (setup_dm_verity h d e)) = [] \<and>
       (reaches h Load_table \<longrightarrow>
          error (setup_dm_verity h d e) =
            Some (file_error_failed ''Failed to generate dm parameter string''))) \<and>
     (length (params_of d) < 1024 \<longrightarrow>
       error (setup_dm_verity h d e) \<noteq>
         Some (file_error_failed ''Failed to generate dm parameter string''))"
  using assms setup_checks_None [of d e]
  by (simp add: setup_defs reaches_def file_error_failed_def)

lemma parameter_buffer_bound_examples:
  "length (params_of long_device) = 1024 \<and>
   \<not> res (setup_dm_verity host_ok long_device Error_unset) \<and>
   error (setup_dm_verity host_ok long_device Error_unset) =
     Some (file_error_failed ''Failed to generate dm parameter string'') \<and>
   length (params_of snug_device) = 1023 \<and>
   error (setup_dm_verity host_ok snug_device Error_unset) \<noteq>
     Some (file_error_failed ''Failed to generate dm parameter string'')"
proof -
  have e: "Error_unset \<noteq> Error_set"
    by simp
  have r: "reaches host_ok Load_table"
    by (simp add: reaches_def example_defs)
  have d1: "dec (Suc 0) = ''1''"
    by (simp add: dec.simps digit_def)
  have long: "length (params_of long_device) = 1024"
    by (simp add: params_of_def long_device_def example_device_def d1)
  have snug: "length (params_of snug_device) = 1023"
    by (simp add: params_of_def snug_device_def example_device_def d1)
  show ?thesis
    using r long snug
      parameter_buffer_bound_within_gint [OF long_device_pre e, of host_ok]
      parameter_buffer_bound_within_gint [OF snug_device_pre e, of host_ok]
    by (simp add: G_MAXINT_def)
qed

text \<open>
  Beyond \<^verbatim>\<open>G_MAXINT\<close> the check of the buffer does not fire: \<^verbatim>\<open>g_snprintf\<close> returns
  \<open>- 1\<close>, which is below 1024, and Setup goes on with the cut string that the buffer
  holds.
\<close>

lemma setup_beyond_gint:
  assumes "setup_pre d" and "e \<noteq> Error_set" and "int (length (params_of d)) > G_MAXINT"
    and "reaches h Status_check" and "passes h Status_check"
  shows "res (setup_dm_verity h d e) \<and> error (setup_dm_verity h d e) = None \<and>
     length (requests DM_TABLE_LOAD (trace (setup_dm_verity h d e))) = 1"
  using assms setup_checks_None [of d e]
  by (simp add: setup_defs reaches_def)

text \<open>
  C6, at the input where the code departs from it: a device whose lower device has a path
  of \<open>2 ^ 30\<close> characters, so that the formatted parameters have 2147483770 characters,
  far more than the buffer of 1024 bytes holds. On a host where every call succeeds,
  Setup reports no formatting error: it issues the table load with the cut string and
  returns success.
\<close>

theorem setup_accepts_params_beyond_gint:
  "setup_pre huge_device \<and> length (params_of huge_device) = 2147483770 \<and>
   res (setup_dm_verity host_ok huge_device Error_unset) \<and>
   error (setup_dm_verity host_ok huge_device Error_unset) = None \<and>
   length (requests DM_TABLE_LOAD (trace (setup_dm_verity host_ok huge_device Error_unset))) = 1"
proof -
  have e: "Error_unset \<noteq> Error_set"
    by simp
  have g: "int (length (params_of huge_device)) > G_MAXINT"
    by (simp add: huge_device_length G_MAXINT_def)
  have r: "reaches host_ok Status_check" and p: "passes host_ok Status_check"
    by (simp_all add: reaches_def example_defs)
  show ?thesis
    using huge_device_pre huge_device_length setup_beyond_gint [OF huge_device_pre e g r p]
    by simp
qed

text \<open>
  C9. Whatever the host and the device, Setup issues at most one table load, and every
  table load it issues has a target count of 1, the target type \<^verbatim>\<open>verity\<close>, the start
  sector 0 and the length \<open>data_size div 512\<close>. It issues one when the preconditions
  hold, the create step has passed and the parameters fit the buffer. For a valid size
  that length is eight times the number of 4096-byte blocks.
\<close>

theorem table_load_single_verity_target:
  "length (requests DM_TABLE_LOAD (trace (setup_dm_verity h d e))) \<le> 1 \<and>
   (\<forall>(hdr, body) \<in> set (requests DM_TABLE_LOAD (trace (setup_dm_verity h d e))).
      target_count hdr = 1 \<and>
      map_option (\<lambda>(ts, p). (target_type ts, sector_start ts, length_ts ts)) body =
        Some (''verity'', 0, data_size d div 512)) \<and>
   (setup_pre d \<and> e \<noteq> Error_set \<and> fits d \<and> reaches h Load_table \<longrightarrow>
      length (requests DM_TABLE_LOAD (trace (setup_dm_verity h d e))) = 1) \<and>
   (setup_pre d \<longrightarrow> unat (data_size d div 512) = 8 * unat (data_size d div 4096))"
proof -
  have "setup_pre d \<longrightarrow> unat (data_size d div 512) = 8 * unat (data_size d div 4096)"
    by (simp add: setup_pre_def sectors_of_size)
  moreover have "length (requests DM_TABLE_LOAD (trace (setup_dm_verity h d e))) \<le> 1 \<and>
     (\<forall>(hdr, body) \<in> set (requests DM_TABLE_LOAD (trace (setup_dm_verity h d e))).
        target_count hdr = 1 \<and>
        map_option (\<lambda>(ts, p). (target_type ts, sector_start ts, length_ts ts)) body =
          Some (''verity'', 0, data_size d div 512))"
    by (cases "setup_checks d e")
      (simp_all add: setup_defs g_strlcpy_def DM_MAX_TYPE_NAME_def)
  moreover have "length (requests DM_TABLE_LOAD (trace (setup_dm_verity h d e))) = 1"
    if "setup_pre d" and "e \<noteq> Error_set" and "fits d" and "reaches h Load_table"
    using that setup_checks_None [of d e]
    by (simp add: setup_defs reaches_def)
  ultimately show ?thesis
    by simp
qed

theorem table_load_single_verity_target_witness:
  "setup_pre example_device \<and> Error_unset \<noteq> Error_set \<and> fits example_device \<and>
   reaches host_ok Load_table \<and>
   map (\<lambda>(hdr, body). (target_count hdr,
          map_option (\<lambda>(ts, p). (target_type ts, sector_start ts, length_ts ts)) body))
     (requests DM_TABLE_LOAD (trace (setup_dm_verity host_ok example_device Error_unset))) =
     [(1, Some (''verity'', 0, 8))] \<and>
   unat (data_size example_device div 512) = 8 * unat (data_size example_device div 4096)"
proof -
  have r: "reaches host_ok Load_table"
    by (simp add: reaches_def example_defs)
  have ds: "data_size example_device div 512 = 8"
    by (simp add: example_device_def)
  obtain req where req: "requests DM_TABLE_LOAD
      (trace (setup_dm_verity host_ok example_device Error_unset)) = [req]"
    using example_device_pre example_device_fits r
      table_load_single_verity_target [of host_ok example_device Error_unset]
    by (auto simp add: length_Suc_conv)
  show ?thesis
    using example_device_pre example_device_fits r ds req
      table_load_single_verity_target [of host_ok example_device Error_unset]
    by (cases req) simp
qed

text \<open>
  C8. Once the activate request has succeeded, Setup leaves in \<open>upper_dev\<close> exactly
  \<^verbatim>\<open>/dev/dm-<minor>\<close>, the minor number being that of the device number in the header
  the activate request returned, in decimal.
\<close>

theorem activation_sets_upper_dev:
  assumes "setup_pre d" and "e \<noteq> Error_set" and "fits d" and "reaches h Probe_open"
  shows "upper_dev (dm_verity (setup_dm_verity h d e)) =
     Some (''/dev/dm-'' @ dec (unat (minor (dev (header (buf (dev_suspend h)))))))"
  using assms setup_checks_None [of d e]
  by (simp add: setup_defs reaches_def)

theorem activation_sets_upper_dev_witness:
  "setup_pre example_device \<and> Error_unset \<noteq> Error_set \<and> fits example_device \<and>
   reaches host_ok Probe_open \<and> dev (header (buf (dev_suspend host_ok))) = 0xfd00 \<and>
   upper_dev (dm_verity (setup_dm_verity host_ok example_device Error_unset)) = Some ''/dev/dm-0''"
proof -
  have e: "Error_unset \<noteq> Error_set"
    by simp
  have r: "reaches host_ok Probe_open"
    by (simp add: reaches_def example_defs)
  have m: "dev (header (buf (dev_suspend host_ok))) = 0xfd00"
    by (simp add: example_defs)
  have z: "dec (unat (minor 0xfd00)) = ''0''"
    by (simp add: minor_def dec.simps digit_def)
  show ?thesis
    using example_device_pre example_device_fits r m
      activation_sets_upper_dev [OF example_device_pre e example_device_fits r]
    by (simp add: z)
qed

text \<open>
  C5. When Setup reaches the status query and the query itself succeeds, Setup succeeds if
  and only if the status string is \<^verbatim>\<open>V\<close>, character for character; any other string
  makes it fail with the unexpected-status error and roll back with one Remove request.
\<close>

theorem status_check_accepts_only_V:
  assumes "setup_pre d" and "e \<noteq> Error_set" and "fits d"
    and "reaches h Status_check" and "ret (table_status h) = 0"
  shows "(res (setup_dm_verity h d e) \<longleftrightarrow> params (buf (table_status h)) = ''V'') \<and>
     (params (buf (table_status h)) \<noteq> ''V'' \<longrightarrow>
        error (setup_dm_verity h d e) =
          Some (file_error_failed
            (''Unexpected dm-verity status '' @ [CHR 0x27] @ params (buf (table_status h))
               @ [CHR 0x27] @ '' (instead of 'V')'')) \<and>
        length (requests DM_DEV_REMOVE (trace (setup_dm_verity h d e))) = 1)"
  using assms setup_checks_None [of d e]
  by (simp add: setup_defs reaches_def)

theorem status_check_accepts_only_V_witness:
  "setup_pre example_device \<and> Error_unset \<noteq> Error_set \<and> fits example_device \<and>
   reaches (host_status ''V '') Status_check \<and> ret (table_status (host_status ''V '')) = 0 \<and>
   \<not> res (setup_dm_verity (host_status ''V '') example_device Error_unset) \<and>
   length (requests DM_DEV_REMOVE
     (trace (setup_dm_verity (host_status ''V '') example_device Error_unset))) = 1 \<and>
   reaches (host_status []) Status_check \<and> ret (table_status (host_status [])) = 0 \<and>
   \<not> res (setup_dm_verity (host_status []) example_device Error_unset) \<and>
   reaches (host_status ''V'') Status_check \<and> ret (table_status (host_status ''V'')) = 0 \<and>
   res (setup_dm_verity (host_status ''V'') example_device Error_unset)"
proof -
  have e: "Error_unset \<noteq> Error_set"
    by simp
  have r: "reaches (host_status s) Status_check" and t: "ret (table_status (host_status s)) = 0"
    and p: "params (buf (table_status (host_status s))) = s" for s
    by (simp_all add: reaches_def example_defs)
  show ?thesis
    using example_device_pre example_device_fits r t
      status_check_accepts_only_V [OF example_device_pre e example_device_fits r t, of "''V ''"]
      status_check_accepts_only_V [OF example_device_pre e example_device_fits r t, of "[]"]
      status_check_accepts_only_V [OF example_device_pre e example_device_fits r t, of "''V''"]
    by (simp add: p)
qed

text \<open>
  C1, at the input where the code departs from it: the probe open fails after the device
  was activated. Setup returns failure and rolls the kernel device back with one Remove
  request, but the struct still holds \<^verbatim>\<open>/dev/dm-0\<close> in \<open>upper_dev\<close>.
\<close>

theorem setup_probe_failure_leaves_upper_dev:
  "\<not> res (setup_dm_verity (host_failing Probe_open) example_device Error_unset) \<and>
   upper_dev (dm_verity (setup_dm_verity (host_failing Probe_open) example_device Error_unset)) =
     Some ''/dev/dm-0'' \<and>
   length (requests DM_DEV_REMOVE
     (trace (setup_dm_verity (host_failing Probe_open) example_device Error_unset))) = 1"
  by (simp add: setup_defs example_defs setup_checks_def minor_def dec.simps digit_def)

subsection \<open>Remove\<close>

text \<open>
  C7, as the code has it. For a device whose \<open>upper_dev\<close> is set, Remove succeeds exactly
  when its preconditions hold, the control handle opens and the host accepts the remove
  request; \<open>upper_dev\<close> is cleared exactly then, nothing else being changed, and on a
  failure the device is as it was. A refused remove request is reported with the kernel's
  error text; a control handle that does not open is reported with a fixed message, and
  nothing else is called. A control handle that was opened is closed once, as the last
  call.
\<close>

theorem remove_clears_upper_dev_on_success_only:
  assumes "upper_dev d \<noteq> None"
  shows "(res (remove_dm_verity h d deferred e) \<longleftrightarrow>
        remove_pre d \<and> e \<noteq> Error_set \<and> ret (open_control h) \<ge> 0 \<and> ret (dev_remove h) = 0) \<and>
     (upper_dev (dm_verity (remove_dm_verity h d deferred e)) = None \<longleftrightarrow>
        res (remove_dm_verity h d deferred e)) \<and>
     (res (remove_dm_verity h d deferred e) \<longrightarrow>
        dm_verity (remove_dm_verity h d deferred e) = d\<lparr>upper_dev := None\<rparr> \<and>
        error (remove_dm_verity h d deferred e) = None) \<and>
     (\<not> res (remove_dm_verity h d deferred e) \<longrightarrow>
        dm_verity (remove_dm_verity h d deferred e) = d) \<and>
     (remove_pre d \<and> e \<noteq> Error_set \<and> ret (open_control h) \<ge> 0 \<and> ret (dev_remove h) \<noteq> 0 \<longrightarrow>
        error (remove_dm_verity h d deferred e) =
          Some (file_error_failed
            (''Failed to remove dm device: '' @ g_strerror h (errno (dev_remove h))))) \<and>
     (remove_pre d \<and> e \<noteq> Error_set \<and> ret (open_control h) < 0 \<longrightarrow>
        error (remove_dm_verity h d deferred e) =
          Some (file_error_failed ''Failed to open /dev/mapper/control'') \<and>
        trace (remove_dm_verity h d deferred e) = [Open_path ''/dev/mapper/control'']) \<and>
     (remove_pre d \<and> e \<noteq> Error_set \<and> ret (open_control h) \<ge> 0 \<longrightarrow>
        last (trace (remove_dm_verity h d deferred e)) = G_close (ret (open_control h)) \<and>
        count_list (trace (remove_dm_verity h d deferred e)) (G_close (ret (open_control h))) = 1)"
  using assms remove_checks_None [of d e]
  by (cases "remove_checks d e") (auto simp add: remove_defs)

theorem remove_clears_upper_dev_on_success_only_witness:
  "upper_dev active_device \<noteq> None \<and> remove_pre active_device \<and> Error_unset \<noteq> Error_set \<and>
   ret (open_control host_remove_busy) \<ge> 0 \<and> ret (dev_remove host_remove_busy) \<noteq> 0 \<and>
   \<not> res (remove_dm_verity host_remove_busy active_device True Error_unset) \<and>
   dm_verity (remove_dm_verity host_remove_busy active_device True Error_unset) = active_device \<and>
   error (remove_dm_verity host_remove_busy active_device True Error_unset) =
     Some (file_error_failed ''Failed to remove dm device: Device or resource busy'') \<and>
   last (trace (remove_dm_verity host_remove_busy active_device True Error_unset)) = G_close 3 \<and>
   ret (open_control host_ok) \<ge> 0 \<and> ret (dev_remove host_ok) = 0 \<and>
   res (remove_dm_verity host_ok active_device True Error_unset) \<and>
   upper_dev (dm_verity (remove_dm_verity host_ok active_device True Error_unset)) = None"
proof -
  have e: "Error_unset \<noteq> Error_set"
    by simp
  have busy: "ret (open_control host_remove_busy) = 3" "ret (dev_remove host_remove_busy) = - 1"
    "g_strerror host_remove_busy (errno (dev_remove host_remove_busy)) = ''Device or resource busy''"
    by (simp_all add: host_remove_busy_def example_defs)
  have ok: "ret (open_control host_ok) = 3" "ret (dev_remove host_ok) = 0"
    by (simp_all add: example_defs)
  have u: "upper_dev active_device \<noteq> None"
    by (simp add: active_device_def)
  show ?thesis
    using active_device_pre u e
      remove_clears_upper_dev_on_success_only [OF u, of host_remove_busy True Error_unset]
      remove_clears_upper_dev_on_success_only [OF u, of host_ok True Error_unset]
    by (simp add: busy ok)
qed

text \<open>
  C7, as the claim words it, fails when the control handle does not open: the error that
  Remove reports is the fixed message, and the kernel's error text for the failed open,
  \<^verbatim>\<open>Permission denied\<close> here, is no part of it.
\<close>

theorem remove_open_failure_has_no_kernel_text:
  "remove_pre active_device \<and>
   \<not> res (remove_dm_verity host_no_control active_device False Error_unset) \<and>
   error (remove_dm_verity host_no_control active_device False Error_unset) =
     Some (file_error_failed ''Failed to open /dev/mapper/control'') \<and>
   g_strerror host_no_control (errno (open_control host_no_control)) = ''Permission denied'' \<and>
   \<not> sublist (g_strerror host_no_control (errno (open_control host_no_control)))
       (message (the (error (remove_dm_verity host_no_control active_device False Error_unset))))"
proof -
  have "error (remove_dm_verity host_no_control active_device False Error_unset) =
      Some (file_error_failed ''Failed to open /dev/mapper/control'')"
    and "\<not> res (remove_dm_verity host_no_control active_device False Error_unset)"
    by (simp_all add: remove_defs remove_checks_def active_device_def host_no_control_def
        example_defs)
  moreover have "g_strerror host_no_control (errno (open_control host_no_control)) =
      ''Permission denied''"
    by (simp add: host_no_control_def example_defs)
  moreover have "\<not> sublist ''Permission denied'' ''Failed to open /dev/mapper/control''"
    by (simp add: sublist_Cons_right)
  ultimately show ?thesis
    using active_device_pre by (simp add: file_error_failed_def)
qed

subsection \<open>Preconditions\<close>

text \<open>
  C10. A call of Setup or Remove whose preconditions do not hold (for Setup: \<open>upper_dev\<close>
  set, a size that is zero or no multiple of 4096, or a missing identity, lower device,
  root digest or salt; for Remove the same with \<open>upper_dev\<close> missing; for both, an error
  argument that is already set) returns failure with the device unchanged, no error
  reported and no call to the host. Every other failure of the two operations reports an
  error with a text.
\<close>

theorem precondition_failure_is_silent:
  "(\<not> setup_pre d \<or> e = Error_set \<longrightarrow>
      \<not> res (setup_dm_verity h d e) \<and> dm_verity (setup_dm_verity h d e) = d \<and>
      error (setup_dm_verity h d e) = None \<and>
      filter is_host_call (trace (setup_dm_verity h d e)) = []) \<and>
   (\<not> remove_pre d \<or> e = Error_set \<longrightarrow>
      \<not> res (remove_dm_verity h d deferred e) \<and>
      dm_verity (remove_dm_verity h d deferred e) = d \<and>
      error (remove_dm_verity h d deferred e) = None \<and>
      filter is_host_call (trace (remove_dm_verity h d deferred e)) = []) \<and>
   (setup_pre d \<and> e \<noteq> Error_set \<and> \<not> res (setup_dm_verity h d e) \<longrightarrow>
      (\<exists>g. error (setup_dm_verity h d e) = Some g \<and> message g \<noteq> [])) \<and>
   (remove_pre d \<and> e \<noteq> Error_set \<and> \<not> res (remove_dm_verity h d deferred e) \<longrightarrow>
      (\<exists>g. error (remove_dm_verity h d deferred e) = Some g \<and> message g \<noteq> []))"
proof -
  have s1: "\<not> res (setup_dm_verity h d e) \<and> dm_verity (setup_dm_verity h d e) = d \<and>
      error (setup_dm_verity h d e) = None \<and>
      filter is_host_call (trace (setup_dm_verity h d e)) = []"
    if "\<not> setup_pre d \<or> e = Error_set"
    using that setup_checks_None [of d e]
    by (cases "setup_checks d e") (auto simp add: setup_dm_verity_def return_val_if_fail_def)
  have r1: "\<not> res (remove_dm_verity h d deferred e) \<and>
      dm_verity (remove_dm_verity h d deferred e) = d \<and>
      error (remove_dm_verity h d deferred e) = None \<and>
      filter is_host_call (trace (remove_dm_verity h d deferred e)) = []"
    if "\<not> remove_pre d \<or> e = Error_set"
    using that remove_checks_None [of d e]
    by (cases "remove_checks d e") (auto simp add: remove_dm_verity_def return_val_if_fail_def)
  have s2: "\<exists>g. error (setup_dm_verity h d e) = Some g \<and> message g \<noteq> []"
    if "setup_pre d" "e \<noteq> Error_set" "\<not> res (setup_dm_verity h d e)"
    using that setup_checks_None [of d e]
    by (simp add: setup_defs file_error_failed_def split: if_splits)
  have r2: "\<exists>g. error (remove_dm_verity h d deferred e) = Some g \<and> message g \<noteq> []"
    if "remove_pre d" "e \<noteq> Error_set" "\<not> res (remove_dm_verity h d deferred e)"
    using that remove_checks_None [of d e]
    by (simp add: remove_defs file_error_failed_def split: if_splits)
  show ?thesis
    using s1 r1 s2 r2 by blast
qed

theorem precondition_failure_is_silent_witness:
  "\<not> setup_pre active_device \<and>
   \<not> res (setup_dm_verity host_ok active_device Error_unset) \<and>
   dm_verity (setup_dm_verity host_ok active_device Error_unset) = active_device \<and>
   error (setup_dm_verity host_ok active_device Error_unset) = None \<and>
   filter is_host_call (trace (setup_dm_verity host_ok active_device Error_unset)) = [] \<and>
   \<not> remove_pre example_device \<and>
   \<not> res (remove_dm_verity host_ok example_device False Error_unset) \<and>
   error (remove_dm_verity host_ok example_device False Error_unset) = None \<and>
   filter is_host_call (trace (remove_dm_verity host_ok example_device False Error_unset)) = [] \<and>
   setup_pre example_device \<and> Error_unset \<noteq> Error_set \<and>
   \<not> res (setup_dm_verity (host_failing Create) example_device Error_unset) \<and>
   error (setup_dm_verity (host_failing Create) example_device Error_unset) \<noteq> None"
proof -
  have a: "\<not> setup_pre active_device"
    by (simp add: setup_pre_def active_device_def)
  have x: "\<not> remove_pre example_device"
    by (simp add: remove_pre_def example_device_def)
  have f: "\<not> res (setup_dm_verity (host_failing Create) example_device Error_unset)"
    by (simp add: setup_defs example_defs setup_checks_def)
  show ?thesis
    using a x f example_device_pre
      precondition_failure_is_silent [of active_device Error_unset host_ok False]
      precondition_failure_is_silent [of example_device Error_unset host_ok False]
      precondition_failure_is_silent [of example_device Error_unset "host_failing Create" False]
    by auto
qed

end
